theory Spec2Isabelle
  imports Complex_Main "HOL-Library.Word" "HOL-Library.AList"
begin

section \<open>JavaScript values\<close>

text \<open>
  A JavaScript string is a sequence of UTF-16 code units. Literals of the source are
  written \<open>js ''...''\<close>.
\<close>

type_synonym jschar = "16 word"
type_synonym jsstring = "jschar list"

definition js :: "string \<Rightarrow> jsstring" where
  "js s = map of_char s"

text \<open>
  \<open>String.prototype.trim\<close> strips the code units of WhiteSpace and LineTerminator
  from both ends.
\<close>

definition is_ws :: "jschar \<Rightarrow> bool" where
  "is_ws c \<longleftrightarrow>
     c = 0x0009 \<or> c = 0x000A \<or> c = 0x000B \<or> c = 0x000C \<or> c = 0x000D \<or> c = 0x0020 \<or>
     c = 0x00A0 \<or> c = 0x1680 \<or> (0x2000 \<le> c \<and> c \<le> 0x200A) \<or> c = 0x2028 \<or>
     c = 0x2029 \<or> c = 0x202F \<or> c = 0x205F \<or> c = 0x3000 \<or> c = 0xFEFF"

definition trim :: "jsstring \<Rightarrow> jsstring" where
  "trim s = rev (dropWhile is_ws (rev (dropWhile is_ws s)))"

text \<open>\<open>s.slice(0, n)\<close> for a string \<open>s\<close> and \<open>n \<ge> 0\<close>.\<close>

definition slice0 :: "nat \<Rightarrow> jsstring \<Rightarrow> jsstring" where
  "slice0 n s = take n s"

text \<open>\<open>xs.join(sep)\<close> on an array of strings.\<close>

fun join :: "jsstring \<Rightarrow> jsstring list \<Rightarrow> jsstring" where
  "join sep [] = []"
| "join sep [x] = x"
| "join sep (x # y # ys) = x @ sep @ join sep (y # ys)"

text \<open>
  A number is a double: a finite value (read as the real it denotes), an infinity or NaN.
\<close>

datatype jsnum = Finite real | PosInf | NegInf | NaN

fun isFinite :: "jsnum \<Rightarrow> bool" where
  "isFinite (Finite r) = True"
| "isFinite _ = False"

text \<open>
  The values a parsed frame is made of, and \<open>undefined\<close>, which reading a missing
  property gives. An object is the list of its own properties.
\<close>

datatype json =
    JUndefined
  | JNull
  | JBool bool
  | JNum jsnum
  | JStr jsstring
  | JArr "json list"
  | JObj "(jsstring \<times> json) list"

text \<open>Truthiness: what \<open>if (v)\<close>, \<open>!v\<close>, \<open>a && b\<close> and \<open>a || b\<close> test.\<close>

fun truthy :: "json \<Rightarrow> bool" where
  "truthy JUndefined = False"
| "truthy JNull = False"
| "truthy (JBool b) = b"
| "truthy (JNum n) = (n \<noteq> Finite 0 \<and> n \<noteq> NaN)"
| "truthy (JStr s) = (s \<noteq> [])"
| "truthy (JArr xs) = True"
| "truthy (JObj kvs) = True"

text \<open>
  \<open>o?.k\<close>: a property of an object, \<open>undefined\<close> for \<open>null\<close>, \<open>undefined\<close> and for
  every value without the property. None of the keys the relay reads is a property of a
  string, a number, a boolean or an array, so they give \<open>undefined\<close> there; \<open>o.k\<close>
  is the same wherever the source has made sure \<open>o\<close> is neither \<open>null\<close> nor
  \<open>undefined\<close>.
\<close>

fun getp :: "json \<Rightarrow> string \<Rightarrow> json" where
  "getp (JObj kvs) k = (case map_of kvs (js k) of Some v \<Rightarrow> v | None \<Rightarrow> JUndefined)"
| "getp _ k = JUndefined"

text \<open>\<open>a ?? b\<close>.\<close>

definition nc :: "json \<Rightarrow> json \<Rightarrow> json" where
  "nc a b = (if a = JUndefined \<or> a = JNull then b else a)"

text \<open>\<open>a || b\<close> on values.\<close>

definition lor :: "json \<Rightarrow> json \<Rightarrow> json" where
  "lor a b = (if truthy a then a else b)"

text \<open>
  Keys of a \<open>Map\<close> are compared by SameValueZero: primitives by value, objects and
  arrays by identity. Every frame is parsed afresh, so an object or array taken from a
  frame is identical to no key stored before.
\<close>

fun is_ref :: "json \<Rightarrow> bool" where
  "is_ref (JArr xs) = True"
| "is_ref (JObj kvs) = True"
| "is_ref _ = False"

text \<open>
  \<open>toNumber(value, fallback)\<close>. The coercion \<open>Number(value)\<close> is the language's own and
  is taken as the parameter \<open>N\<close>.
\<close>

definition toNumber :: "(json \<Rightarrow> jsnum) \<Rightarrow> json \<Rightarrow> real \<Rightarrow> real" where
  "toNumber N v fallback = (case N v of Finite r \<Rightarrow> r | _ \<Rightarrow> fallback)"

section \<open>Messages for the remote store\<close>

text \<open>The arguments of the mutation \<open>messages:pushFromGateway\<close> (the instance id apart).\<close>

record gmsg =
  sessionKey :: json
  role :: jsstring
  content :: jsstring
  timestamp :: real

datatype error = TypeError

definition nl :: jsstring where
  "nl = [0x000A]"

subsection \<open>Text of a chat event (\<open>onFrame\<close>)\<close>



subsection \<open>The run accumulator (\<open>pendingDeltas\<close>)\<close>

record delta =
  d_sessionKey :: json
  d_text :: jsstring
  d_timestamp :: json

text \<open>
  \<open>pendingDeltas\<close> is a \<open>Map\<close> from run ids to entries. An entry stored under an object
  or an array can never be read again (see \<open>is_ref\<close>) and is not kept in the model.
\<close>

type_synonym deltas = "json \<rightharpoonup> delta"





text \<open>
  The payload \<open>{ sessionKey, message: { role: "assistant", content, timestamp } }\<close>
  handed to \<open>pushChatEvent\<close>.
\<close>

definition finished :: "json \<Rightarrow> jsstring \<Rightarrow> json \<Rightarrow> json" where
  "finished sk text ts =
     JObj [(js ''sessionKey'', sk),
           (js ''message'', JObj [(js ''role'', JStr (js ''assistant'')),
                                  (js ''content'', JStr text),
                                  (js ''timestamp'', ts)])]"



subsection \<open>Normalisation (\<open>pushChatEvent\<close>, \<open>syncHistoryForSessions\<close>)\<close>

text \<open>
  \<open>content.filter((part) => part?.type === "text" && typeof part?.text === "string")
  .map((part) => part.text)\<close>
\<close>

definition text_part :: "json \<Rightarrow> jsstring option" where
  "text_part part =
     (if getp part ''type'' = JStr (js ''text'')
      then (case getp part ''text'' of JStr s \<Rightarrow> Some s | _ \<Rightarrow> None)
      else None)"

definition content_text :: "json \<Rightarrow> jsstring" where
  "content_text c =
     (case c of
        JStr s \<Rightarrow> s
      | JArr parts \<Rightarrow> join nl (List.map_filter text_part parts)
      | _ \<Rightarrow> [])"

text \<open>
  \<open>msg.role === "user" ? "user" : msg.role === "assistant" ? "assistant" : "system"\<close>
\<close>

definition push_role :: "json \<Rightarrow> jsstring" where
  "push_role r =
     (if r = JStr (js ''user'') then js ''user''
      else if r = JStr (js ''assistant'') then js ''assistant''
      else js ''system'')"

text \<open>
  \<open>pushChatEvent(payload)\<close>: the arguments of the mutation it calls, or \<open>None\<close> when it
  returns before. A failure of the mutation is caught and logged.
\<close>

definition pushChatEvent :: "(json \<Rightarrow> jsnum) \<Rightarrow> int \<Rightarrow> json \<Rightarrow> gmsg option" where
  "pushChatEvent N now payload =
     (let sk = getp payload ''sessionKey''; msg = getp payload ''message'' in
      if \<not> truthy sk \<or> \<not> truthy msg then None
      else
        (let text = content_text (getp msg ''content'') in
         if trim text = [] then None
         else Some \<lparr>sessionKey = sk, role = push_role (getp msg ''role''),
                    content = slice0 4000 text,
                    timestamp = toNumber N (getp msg ''timestamp'') (of_int now)\<rparr>))"

text \<open>
  One round of the loop over \<open>rawMessages\<close> in \<open>syncHistoryForSessions\<close>: \<open>msg.role\<close>
  throws on \<open>null\<close> and \<open>undefined\<close>; \<open>None\<close> is \<open>continue\<close>.
\<close>

definition history_msg ::
  "(json \<Rightarrow> jsnum) \<Rightarrow> int \<Rightarrow> json \<Rightarrow> json \<Rightarrow> error + gmsg option" where
  "history_msg N now sk msg =
     (if msg = JNull \<or> msg = JUndefined then Inl TypeError
      else if getp msg ''role'' = JStr (js ''toolResult'') \<or> getp msg ''role'' = JStr (js ''tool'')
      then Inr None
      else
        (let text = content_text (getp msg ''content'') in
         if trim text = [] then Inr None
         else Inr (Some \<lparr>sessionKey = sk, role = push_role (getp msg ''role''),
                          content = slice0 4000 text,
                          timestamp = toNumber N (nc (getp msg ''timestamp'') (getp msg ''ts''))
                                        (of_int now)\<rparr>)))"

text \<open>
  The loop; \<open>clock i\<close> is what \<open>nowMs()\<close> returns in the round of the message at index
  \<open>i\<close>.
\<close>

fun history_loop ::
  "(json \<Rightarrow> jsnum) \<Rightarrow> (nat \<Rightarrow> int) \<Rightarrow> json \<Rightarrow> nat \<Rightarrow> json list \<Rightarrow> error + gmsg list" where
  "history_loop N clock sk i [] = Inr []"
| "history_loop N clock sk i (msg # rest) =
     (case history_msg N (clock i) sk msg of
        Inl e \<Rightarrow> Inl e
      | Inr r \<Rightarrow>
          (case history_loop N clock sk (Suc i) rest of
             Inl e \<Rightarrow> Inl e
           | Inr ms \<Rightarrow> Inr ((case r of Some m \<Rightarrow> [m] | None \<Rightarrow> []) @ ms)))"

text \<open>
  The messages \<open>syncHistoryForSessions\<close> pushes for one session, from the payload of
  \<open>chat.history\<close>: \<open>for (const msg of payload?.messages ?? [])\<close> walks an array, walks
  a string by its characters (none of which has a role or a content) and throws on every
  other value. An exception ends the work on this session before anything is pushed.
\<close>

definition history_pushes ::
  "(json \<Rightarrow> jsnum) \<Rightarrow> (nat \<Rightarrow> int) \<Rightarrow> json \<Rightarrow> json \<Rightarrow> error + gmsg list" where
  "history_pushes N clock sk payload =
     (case nc (getp payload ''messages'') (JArr []) of
        JArr raws \<Rightarrow> history_loop N clock sk 0 raws
      | JStr s \<Rightarrow> Inr []
      | _ \<Rightarrow> Inl TypeError)"

subsection \<open>\<open>extractGatewayMessages\<close>\<close>

text \<open>The function given to \<open>map\<close>; \<open>None\<close> is the \<open>null\<close> that \<open>filter(Boolean)\<close> drops.\<close>

definition extract_one :: "(json \<Rightarrow> jsnum) \<Rightarrow> int \<Rightarrow> json \<Rightarrow> gmsg option" where
  "extract_one N now m =
     (let sk = nc (getp m ''sessionKey'') (nc (getp m ''session_id'') (getp m ''session''));
          c = (case getp m ''content'' of
                 JStr s \<Rightarrow> s
               | _ \<Rightarrow> (case getp m ''text'' of JStr s \<Rightarrow> s | _ \<Rightarrow> []))
      in if \<not> truthy sk \<or> c = [] then None
         else Some \<lparr>sessionKey = sk,
                    role = (case getp m ''role'' of
                              JStr r \<Rightarrow> if r = js ''assistant'' \<or> r = js ''system'' \<or> r = js ''user''
                                        then r else js ''assistant''
                            | _ \<Rightarrow> js ''assistant''),
                    content = c,
                    timestamp = toNumber N
                      (nc (getp m ''timestamp'') (nc (getp m ''ts'') (getp m ''createdAt'')))
                      (of_int now)\<rparr>)"

definition rawMessages :: "json \<Rightarrow> json list" where
  "rawMessages payload =
     (case getp payload ''messages'' of JArr xs \<Rightarrow> xs | _ \<Rightarrow> []) @
     (if truthy (getp payload ''message'') \<and> is_ref (getp payload ''message'')
      then [getp payload ''message''] else []) @
     (if truthy payload \<and> truthy (getp payload ''sessionKey'') \<and> truthy (getp payload ''content'')
      then [payload] else [])"

definition extractGatewayMessages :: "(json \<Rightarrow> jsnum) \<Rightarrow> (nat \<Rightarrow> int) \<Rightarrow> json \<Rightarrow> gmsg list" where
  "extractGatewayMessages N clock frame =
     List.map_filter (\<lambda>(i, m). extract_one N (clock i) m)
       (enumerate 0 (rawMessages (getp frame ''payload'')))"

subsection \<open>Deduplication (\<open>recentGatewayMessageHashes\<close>)\<close>

text \<open>
  \<open>hashGatewayMessage\<close>: the SHA-1 digest, the parameter \<open>sha1\<close>, of
  \<open>`${msg.sessionKey}|${msg.role}|${msg.content}|${msg.timestamp}`\<close>, where \<open>S\<close>
  converts the values that are not strings.
\<close>

definition hashGatewayMessage ::
  "(jsstring \<Rightarrow> jsstring) \<Rightarrow> (json \<Rightarrow> jsstring) \<Rightarrow> gmsg \<Rightarrow> jsstring" where
  "hashGatewayMessage sha1 S msg =
     sha1 ((case sessionKey msg of JStr s \<Rightarrow> s | v \<Rightarrow> S v) @ js ''|'' @ role msg @ js ''|'' @
           content msg @ js ''|'' @ S (JNum (Finite (timestamp msg))))"

type_synonym hashes = "jsstring \<rightharpoonup> int"

text \<open>\<open>pruneRecentHashes\<close>, \<open>now\<close> being what \<open>nowMs()\<close> returns.\<close>

definition pruneRecentHashes :: "int \<Rightarrow> hashes \<Rightarrow> hashes" where
  "pruneRecentHashes now hs =
     (let cutoff = now - 10 * 60 * 1000 in
      (\<lambda>h. case hs h of Some ts \<Rightarrow> if ts < cutoff then None else Some ts | None \<Rightarrow> None))"

text \<open>
  What the remote store answers to one mutation: it accepts, and \<open>nowMs()\<close> then
  returns the given time, or the mutation throws.
\<close>

datatype reply = Accepted int | Failed

text \<open>
  The loop of \<open>pushGatewayMessages\<close>. Every message comes with the answer the store
  gives if the mutation is called for it. The result is the new table and the mutations
  called, each with whether the store accepted it.
\<close>

fun push_loop ::
  "(gmsg \<Rightarrow> jsstring) \<Rightarrow> hashes \<Rightarrow> (gmsg \<times> reply) list \<Rightarrow> hashes \<times> (gmsg \<times> bool) list" where
  "push_loop H hs [] = (hs, [])"
| "push_loop H hs ((msg, r) # rest) =
     (if hs (H msg) \<noteq> None then push_loop H hs rest
      else case r of
             Accepted t \<Rightarrow>
               (let (hs', calls) = push_loop H (hs(H msg \<mapsto> t)) rest
                in (hs', (msg, True) # calls))
           | Failed \<Rightarrow>
               (let (hs', calls) = push_loop H hs rest
                in (hs', (msg, False) # calls)))"

definition pushGatewayMessages ::
  "(jsstring \<Rightarrow> jsstring) \<Rightarrow> (json \<Rightarrow> jsstring) \<Rightarrow> hashes \<Rightarrow> int \<Rightarrow> (gmsg \<times> reply) list
     \<Rightarrow> hashes \<times> (gmsg \<times> bool) list" where
  "pushGatewayMessages sha1 S hs now messages =
     (if messages = [] then (hs, [])
      else push_loop (hashGatewayMessage sha1 S) (pruneRecentHashes now hs) messages)"

text \<open>The messages the store accepted.\<close>

definition delivered :: "(gmsg \<times> bool) list \<Rightarrow> gmsg list" where
  "delivered calls = map fst (filter snd calls)"

section \<open>\<open>GatewayConnection\<close>\<close>

datatype readyState = CONNECTING | OPEN | CLOSING | CLOSED

text \<open>
  The errors a request is rejected with: \<open>"Gateway socket is not open"\<close>,
  \<open>`Gateway RPC timeout for ${method}`\<close>, \<open>new Error(v)\<close> for the value \<open>v\<close> a
  failed response carries, and \<open>"Gateway connection closing"\<close>.
\<close>

datatype rpc_error = NotOpen | RpcTimeout jsstring | RpcError json | ConnClosing

datatype settled = Resolved json | Rejected rpc_error

text \<open>
  The fields of the class, and what its requests have created: the promise and the timer
  of the \<open>n\<close>-th call of \<open>request\<close> are both named \<open>n\<close>. \<open>promises\<close> holds the
  settled promises, \<open>timers\<close> the timers that are set, each with the id, the method and
  the delay of its request, and \<open>sent\<close> the frames given to \<open>ws.send\<close>. \<open>pending\<close> is a
  \<open>Map\<close> in insertion order, \<open>handlers\<close> a \<open>Set\<close> in insertion order; a handler is
  named by a number.
\<close>

record GatewayConnection =
  ws :: "readyState option"
  pending :: "(jsstring \<times> nat) list"
  handlers :: "nat list"
  connected :: bool
  closed :: bool
  token :: json
  promises :: "nat \<rightharpoonup> settled"
  timers :: "nat \<rightharpoonup> jsstring \<times> jsstring \<times> int"
  fresh :: nat
  sent :: "json list"

definition new_GatewayConnection :: "json \<Rightarrow> GatewayConnection" where
  "new_GatewayConnection tok =
     \<lparr>ws = None, pending = [], handlers = [], connected = False, closed = False, token = tok,
      promises = Map.empty, timers = Map.empty, fresh = 0, sent = []\<rparr>"

text \<open>\<open>onFrame(handler)\<close> of the class, and the function it returns.\<close>

definition conn_onFrame :: "GatewayConnection \<Rightarrow> nat \<Rightarrow> GatewayConnection" where
  "conn_onFrame s h = s\<lparr>handlers := (if h \<in> set (handlers s) then handlers s else handlers s @ [h])\<rparr>"

definition conn_offFrame :: "GatewayConnection \<Rightarrow> nat \<Rightarrow> GatewayConnection" where
  "conn_offFrame s h = s\<lparr>handlers := removeAll h (handlers s)\<rparr>"

text \<open>\<open>open()\<close> up to its \<open>await\<close>; the socket reports \<open>OPEN\<close> later.\<close>

definition open_start :: "GatewayConnection \<Rightarrow> GatewayConnection" where
  "open_start s = s\<lparr>closed := False, ws := Some CONNECTING\<rparr>"

definition socket_opened :: "GatewayConnection \<Rightarrow> GatewayConnection" where
  "socket_opened s = (case ws s of Some CONNECTING \<Rightarrow> s\<lparr>ws := Some OPEN\<rparr> | _ \<Rightarrow> s)"

text \<open>Settling a promise does nothing once it is settled.\<close>

definition settle :: "(nat \<rightharpoonup> settled) \<Rightarrow> nat \<Rightarrow> settled \<Rightarrow> (nat \<rightharpoonup> settled)" where
  "settle pr h v = (if pr h = None then pr(h \<mapsto> v) else pr)"

text \<open>
  \<open>request(method, payload, timeoutMs)\<close>, for the id \<open>rid\<close> that \<open>randomUUID()\<close> returns:
  the new state and the promise returned.
\<close>

definition request ::
  "GatewayConnection \<Rightarrow> jsstring \<Rightarrow> jsstring \<Rightarrow> json \<Rightarrow> int \<Rightarrow> GatewayConnection \<times> nat" where
  "request s rid method payload timeoutMs =
     (let h = fresh s in
      if ws s \<noteq> Some OPEN
      then (s\<lparr>promises := (promises s)(h \<mapsto> Rejected NotOpen), fresh := Suc h\<rparr>, h)
      else (s\<lparr>pending := AList.update rid h (pending s),
               timers := (timers s)(h \<mapsto> (rid, method, timeoutMs)),
               fresh := Suc h,
               sent := sent s @ [JObj [(js ''type'', JStr (js ''req'')), (js ''id'', JStr rid),
                                       (js ''method'', JStr method), (js ''params'', payload)]]\<rparr>, h))"

text \<open>The callback of the timer \<open>h\<close> runs, if that timer is still set.\<close>

definition timeout_fires :: "GatewayConnection \<Rightarrow> nat \<Rightarrow> GatewayConnection" where
  "timeout_fires s h =
     (case timers s h of
        None \<Rightarrow> s
      | Some (rid, method, t) \<Rightarrow>
          s\<lparr>timers := (timers s)(h := None),
            pending := AList.delete rid (pending s),
            promises := settle (promises s) h (Rejected (RpcTimeout method))\<rparr>)"

text \<open>
  \<open>this.pending.get(frame.id)\<close>: the keys are strings, and no other value is the same
  as a string.
\<close>

definition pending_get :: "GatewayConnection \<Rightarrow> json \<Rightarrow> nat option" where
  "pending_get s v = (case v of JStr i \<Rightarrow> map_of (pending s) i | _ \<Rightarrow> None)"

text \<open>What a response settles its request with.\<close>

definition response_outcome :: "json \<Rightarrow> settled" where
  "response_outcome frame =
     (if getp frame ''ok'' = JBool False
      then Rejected (RpcError (nc (getp (getp frame ''error'') ''message'')
                                  (JStr (js ''Gateway RPC error''))))
      else Resolved (nc (getp frame ''payload'') (nc (getp frame ''result'') frame)))"

text \<open>
  \<open>for (const handler of this.handlers) handler(frame)\<close>, where \<open>throws h frame\<close> says
  whether the handler \<open>h\<close> throws on the frame: the handlers called, in the order of
  the calls, and whether an exception left the loop.
\<close>

fun dispatch :: "(nat \<Rightarrow> json \<Rightarrow> bool) \<Rightarrow> nat list \<Rightarrow> json \<Rightarrow> nat list \<times> bool" where
  "dispatch throws [] frame = ([], False)"
| "dispatch throws (h # hs) frame =
     (if throws h frame then ([h], True)
      else (let (called, thrown) = dispatch throws hs frame in (h # called, thrown)))"

text \<open>The payload of the \<open>connect\<close> request, \<open>platform\<close> being \<open>process.platform\<close>.\<close>

definition connect_payload :: "jsstring \<Rightarrow> json \<Rightarrow> json" where
  "connect_payload platform tok =
     JObj [(js ''minProtocol'', JNum (Finite 3)),
           (js ''maxProtocol'', JNum (Finite 3)),
           (js ''client'', JObj [(js ''id'', JStr (js ''gateway-client'')),
                                 (js ''displayName'', JStr (js ''FastClaw Relay'')),
                                 (js ''version'', JStr (js ''1.0.0'')),
                                 (js ''platform'', JStr platform),
                                 (js ''mode'', JStr (js ''backend''))]),
           (js ''role'', JStr (js ''operator'')),
           (js ''scopes'', JArr [JStr (js ''operator.read''), JStr (js ''operator.write'')]),
           (js ''caps'', JArr []),
           (js ''auth'', JObj [(js ''token'', tok)])]"

definition is_challenge :: "json \<Rightarrow> bool" where
  "is_challenge frame \<longleftrightarrow>
     getp frame ''type'' = JStr (js ''connect.challenge'') \<or>
     getp frame ''event'' = JStr (js ''connect.challenge'')"

text \<open>What the listener of \<open>"message"\<close> did with a frame.\<close>

datatype reaction = Dropped | Settled nat | Challenge nat | Dispatched "nat list" bool

text \<open>
  The listener of \<open>"message"\<close>, for \<open>frame = parseJson(String(raw))\<close>. On a challenge
  it calls \<open>sendConnect\<close>, which runs up to its \<open>await\<close> of \<open>this.request("connect",
  payload, 12000)\<close>, with the id \<open>uuid\<close>. What a handler does is that handler's own.
\<close>

definition on_message ::
  "(nat \<Rightarrow> json \<Rightarrow> bool) \<Rightarrow> jsstring \<Rightarrow> GatewayConnection \<Rightarrow> json \<Rightarrow> jsstring
     \<Rightarrow> GatewayConnection \<times> reaction" where
  "on_message throws platform s frame uuid =
     (if \<not> truthy frame then (s, Dropped)
      else
        case (if truthy (getp frame ''id'') then pending_get s (getp frame ''id'') else None) of
          Some h \<Rightarrow>
            (s\<lparr>timers := (timers s)(h := None),
               pending := (case getp frame ''id'' of
                             JStr i \<Rightarrow> AList.delete i (pending s) | _ \<Rightarrow> pending s),
               promises := settle (promises s) h (response_outcome frame)\<rparr>, Settled h)
        | None \<Rightarrow>
            if is_challenge frame
            then (let (s', h) = request s uuid (js ''connect'') (connect_payload platform (token s))
                                  12000
                  in (s', Challenge h))
            else (let (called, thrown) = dispatch throws (handlers s) frame
                  in (s, Dispatched called thrown)))"

text \<open>
  \<open>close()\<close> up to its \<open>await\<close>: after it the connection no longer holds the socket.
\<close>

definition close :: "GatewayConnection \<Rightarrow> GatewayConnection" where
  "close s =
     (if closed s then s
      else s\<lparr>closed := True, connected := False,
             timers := fold (\<lambda>(rid, h) t. t(h := None)) (pending s) (timers s),
             promises := fold (\<lambda>(rid, h) pr. settle pr h (Rejected ConnClosing)) (pending s)
                           (promises s),
             pending := [],
             ws := None\<rparr>)"

text \<open>
  What holds of a connection through all these operations: a pending request has its
  promise unsettled and its timer set, the names from \<open>fresh\<close> on are unused, and a
  closed connection holds neither a socket nor a pending request.
\<close>

definition conn_inv :: "GatewayConnection \<Rightarrow> bool" where
  "conn_inv s \<longleftrightarrow>
     (\<forall>rid h. map_of (pending s) rid = Some h \<longrightarrow>
        promises s h = None \<and> (\<exists>m t. timers s h = Some (rid, m, t))) \<and>
     (\<forall>h. fresh s \<le> h \<longrightarrow> promises s h = None \<and> timers s h = None) \<and>
     (closed s \<longrightarrow> ws s = None \<and> pending s = [])"

section \<open>Reconnect backoff\<close>

text \<open>
  \<open>Math.min(30000, 1000 * 2 ** Math.min(this.reconnectAttempt, 5))\<close>, in milliseconds.
\<close>

definition backoff :: "nat \<Rightarrow> int" where
  "backoff attempt = min 30000 (1000 * 2 ^ (min attempt 5))"

text \<open>\<open>Math.floor(Math.random() * 500)\<close>, for the value \<open>r\<close> that \<open>Math.random()\<close> returns.\<close>

definition jitter :: "real \<Rightarrow> int" where
  "jitter r = \<lfloor>r * 500\<rfloor>"

definition waitMs :: "nat \<Rightarrow> real \<Rightarrow> int" where
  "waitMs attempt r = backoff attempt + jitter r"

section \<open>The reconnect loop of \<open>Relay\<close>\<close>

text \<open>
  Where \<open>start()\<close> is suspended: not yet called, at one of its four \<open>await\<close>s (the
  \<open>await\<close> of \<open>close()\<close> in \<open>finally\<close> remembers whether \<open>catch\<close> has taken its
  \<open>break\<close>), or returned.
\<close>

datatype pc = NotStarted | AwaitOpen | AwaitRunConnected | AwaitClose bool | AwaitSleep | Returned

text \<open>What the loop has scheduled: a connection attempt, or a sleep of so many milliseconds.\<close>

datatype scheduled = Connect | Sleep int

record Relay =
  running :: bool
  reconnectAttempt :: nat
  conn :: "GatewayConnection option"
  gatewayToken :: json
  recentGatewayMessageHashes :: hashes
  pendingDeltas :: deltas
  pc :: pc
  trace :: "scheduled list"


text \<open>
  \<open>while (this.running) { this.conn = new GatewayConnection(this.config); try { await
  this.conn.open(); ...\<close>
\<close>

definition loop_head :: "Relay \<Rightarrow> Relay" where
  "loop_head r =
     (if running r
      then r\<lparr>conn := Some (open_start (new_GatewayConnection (gatewayToken r))),
             trace := trace r @ [Connect], pc := AwaitOpen\<rparr>
      else r\<lparr>pc := Returned\<rparr>)"

text \<open>
  \<open>finally { await this.conn.close().catch(() => {}); ...\<close>, entered with or without a
  \<open>break\<close> taken. \<open>this.conn\<close> is the connection of this round of the loop.
\<close>

definition enter_finally :: "Relay \<Rightarrow> bool \<Rightarrow> Relay" where
  "enter_finally r brk = r\<lparr>conn := map_option close (conn r), pc := AwaitClose brk\<rparr>"

text \<open>\<open>catch (err) { if (!this.running) break; console.error(...); }\<close>\<close>

definition catch_err :: "Relay \<Rightarrow> Relay" where
  "catch_err r = enter_finally r (\<not> running r)"

text \<open>
  \<open>start()\<close> goes on from where it is suspended up to its next \<open>await\<close>: \<open>ok\<close> says
  whether the promise it awaited was fulfilled (rather than rejected), and \<open>rnd\<close> is what
  \<open>Math.random()\<close> returns, if called.
\<close>

definition resume :: "Relay \<Rightarrow> bool \<times> real \<Rightarrow> Relay" where
  "resume r e =
     (case pc r of
        NotStarted \<Rightarrow> loop_head r
      | AwaitOpen \<Rightarrow>
          if fst e then r\<lparr>reconnectAttempt := 0, pc := AwaitRunConnected\<rparr> else catch_err r
      | AwaitRunConnected \<Rightarrow> if fst e then enter_finally r False else catch_err r
      | AwaitClose brk \<Rightarrow>
          (let r1 = r\<lparr>conn := None\<rparr> in
           if brk \<or> \<not> running r1 then r1\<lparr>pc := Returned\<rparr>
           else (let n = reconnectAttempt r1 + 1 in
                 r1\<lparr>reconnectAttempt := n, trace := trace r1 @ [Sleep (waitMs n (snd e))],
                    pc := AwaitSleep\<rparr>))
      | AwaitSleep \<Rightarrow> loop_head r
      | Returned \<Rightarrow> r)"

text \<open>\<open>stop()\<close> up to its \<open>await\<close>.\<close>

definition stop :: "Relay \<Rightarrow> Relay" where
  "stop r = r\<lparr>running := False, conn := map_option close (conn r)\<rparr>"

text \<open>\<open>start()\<close> resumed once for each element of a list.\<close>

definition resumes :: "Relay \<Rightarrow> (bool \<times> real) list \<Rightarrow> Relay" where
  "resumes r es = foldl resume r es"

section \<open>Instances of the parameters\<close>

text \<open>
  The coercion \<open>N\<close>, the conversion \<open>S\<close>, the digest \<open>sha1\<close> and the handlers'
  behaviour \<open>throws\<close> are parameters: the theorems hold for every function in their
  place. Where a concrete input is evaluated they are these. \<open>Number_prim\<close> is
  \<open>Number(v)\<close> on \<open>undefined\<close>, \<open>null\<close>, booleans and numbers, and \<open>String_prim\<close> is
  \<open>String(v)\<close> on \<open>undefined\<close>, \<open>null\<close>, booleans, strings, zero, the infinities and
  NaN; neither is used at another value. \<open>plain_digest\<close> stands for a digest without
  collisions.
\<close>

definition Number_prim :: "json \<Rightarrow> jsnum" where
  "Number_prim v =
     (case v of
        JUndefined \<Rightarrow> NaN
      | JNull \<Rightarrow> Finite 0
      | JBool b \<Rightarrow> Finite (if b then 1 else 0)
      | JNum n \<Rightarrow> n
      | _ \<Rightarrow> NaN)"

definition String_prim :: "json \<Rightarrow> jsstring" where
  "String_prim v =
     (case v of
        JUndefined \<Rightarrow> js ''undefined''
      | JNull \<Rightarrow> js ''null''
      | JBool b \<Rightarrow> js (if b then ''true'' else ''false'')
      | JStr s \<Rightarrow> s
      | JNum n \<Rightarrow>
          (case n of
             Finite r \<Rightarrow> if r = 0 then js ''0'' else []
           | PosInf \<Rightarrow> js ''Infinity''
           | NegInf \<Rightarrow> js ''-Infinity''
           | NaN \<Rightarrow> js ''NaN'')
      | _ \<Rightarrow> [])"

definition plain_digest :: "jsstring \<Rightarrow> jsstring" where
  "plain_digest s = s"

text \<open>The handler 0 throws on every frame, every other handler on none.\<close>

definition first_throws :: "nat \<Rightarrow> json \<Rightarrow> bool" where
  "first_throws h frame \<longleftrightarrow> h = 0"

section \<open>Example inputs\<close>



definition example_msg :: gmsg where
  "example_msg =
     \<lparr>sessionKey = JStr (js ''s''), role = js ''assistant'', content = js ''hi'', timestamp = 0\<rparr>"

text \<open>An event frame, and the response to the request with a given id.\<close>

definition tick_frame :: json where
  "tick_frame = JObj [(js ''type'', JStr (js ''evt'')), (js ''event'', JStr (js ''tick''))]"

definition response_frame :: "string \<Rightarrow> json \<Rightarrow> json" where
  "response_frame i payload =
     JObj [(js ''type'', JStr (js ''res'')), (js ''id'', JStr (js i)), (js ''ok'', JBool True),
           (js ''payload'', payload)]"

text \<open>A connection whose socket has opened.\<close>

definition open_conn :: GatewayConnection where
  "open_conn = socket_opened (open_start (new_GatewayConnection (JStr (js ''token''))))"

text \<open>
  The payload of a response to \<open>chat.send\<close> that carries one message, with a content of
  4001 characters; and the payload of a response to \<open>chat.history\<close> with one message,
  of the role \<open>function\<close>.
\<close>

definition long_reply :: json where
  "long_reply =
     JObj [(js ''messages'',
            JArr [JObj [(js ''sessionKey'', JStr (js ''agent:main:main'')),
                        (js ''role'', JStr (js ''assistant'')),
                        (js ''content'', JStr (replicate 4001 0x0061))]])]"

definition history_reply :: json where
  "history_reply =
     JObj [(js ''messages'',
            JArr [JObj [(js ''role'', JStr (js ''function'')),
                        (js ''content'', JStr (js ''hi''))]])]"

section \<open>A measure for the loop\<close>

text \<open>
  A bound on the number of times \<open>start()\<close> is resumed before it returns, once
  \<open>running\<close> is false.
\<close>

fun rank :: "pc \<Rightarrow> nat" where
  "rank NotStarted = 1"
| "rank AwaitOpen = 3"
| "rank AwaitRunConnected = 2"
| "rank (AwaitClose b) = 1"
| "rank AwaitSleep = 1"
| "rank Returned = 0"

section \<open>Properties\<close>

lemma js_eq_iff [simp]: "js a = js b \<longleftrightarrow> a = b"
proof -
  have "inj (of_char :: char \<Rightarrow> 16 word)"
  proof (rule injI)
    fix x y :: char
    assume h: "(of_char x :: 16 word) = of_char y"
    have "unat (of_char x :: 16 word) = of_char x" for x :: char
      by (simp add: of_char_def unat_of_nat take_bit_nat_eq_self)
    then show "x = y" using h by (metis of_char_eq_iff)
  qed
  then show ?thesis by (auto simp: js_def dest: injD[OF inj_mapI])
qed

subsection \<open>Backoff\<close>






subsection \<open>The final chat event\<close>

lemma getp_finished [simp]:
  "getp (finished sk t ts) ''sessionKey'' = sk"
  "getp (getp (finished sk t ts) ''message'') ''role'' = JStr (js ''assistant'')"
  "getp (getp (finished sk t ts) ''message'') ''content'' = JStr t"
  "getp (getp (finished sk t ts) ''message'') ''timestamp'' = ts"
  by (simp_all add: finished_def)




lemma js_nonempty [simp]: "js s = [] \<longleftrightarrow> s = []"
  by (simp add: js_def)




subsection \<open>Deduplication\<close>

lemma push_loop_fst:
  "fst (push_loop H hs ((m, r) # rest)) =
     (if hs (H m) \<noteq> None then fst (push_loop H hs rest)
      else case r of Accepted t \<Rightarrow> fst (push_loop H (hs(H m \<mapsto> t)) rest)
                   | Failed \<Rightarrow> fst (push_loop H hs rest))"
  by (simp split: prod.splits reply.splits)


lemma push_loop_keeps: "hs h = Some t \<Longrightarrow> fst (push_loop H hs ms) h = Some t"
proof (induction ms arbitrary: hs)
  case Nil
  then show ?case by simp
next
  case (Cons a ms)
  obtain m r where a: "a = (m, r)" by (cases a)
  show ?case
  proof (cases "hs (H m) \<noteq> None")
    case True
    then show ?thesis using Cons a by (simp only: push_loop_fst) simp
  next
    case False
    then have ne: "H m \<noteq> h" using Cons.prems by auto
    show ?thesis
    proof (cases r)
      case (Accepted t')
      have "fst (push_loop H (hs(H m \<mapsto> t')) ms) h = Some t"
        using Cons.prems ne by (intro Cons.IH) simp
      then show ?thesis using False a Accepted by (simp only: push_loop_fst) simp
    next
      case Failed
      then show ?thesis using False a Cons by (simp only: push_loop_fst) simp
    qed
  qed
qed


lemma push_loop_recorded:
  "fst (push_loop H hs ms) h = Some t \<Longrightarrow>
     hs h = Some t \<or> (\<exists>m. (m, Accepted t) \<in> set ms \<and> H m = h)"
proof (induction ms arbitrary: hs)
  case Nil
  then show ?case by simp
next
  case (Cons a ms)
  obtain m r where a: "a = (m, r)" by (cases a)
  show ?case
  proof (cases "hs (H m) \<noteq> None")
    case True
    then show ?thesis using Cons a by auto
  next
    case False
    show ?thesis
    proof (cases r)
      case (Accepted t')
      from Cons.prems False a Accepted
      have "fst (push_loop H (hs(H m \<mapsto> t')) ms) h = Some t"
        by (simp only: push_loop_fst) simp
      from Cons.IH[OF this] show ?thesis using a Accepted
        by (auto split: if_splits)
    next
      case Failed
      from Cons.prems False a Failed
      have "fst (push_loop H hs ms) h = Some t"
        by (simp only: push_loop_fst) simp
      from Cons.IH[OF this] show ?thesis using a by auto
    qed
  qed
qed

lemma prune_Some:
  "pruneRecentHashes now hs h = Some t \<longleftrightarrow> hs h = Some t \<and> now - 600000 \<le> t"
  by (auto simp: pruneRecentHashes_def Let_def split: option.splits)

lemma prune_None:
  "pruneRecentHashes now hs h = None \<longleftrightarrow> (\<forall>t. hs h = Some t \<longrightarrow> t < now - 600000)"
  by (auto simp: pruneRecentHashes_def Let_def split: option.splits)

lemma push_single:
  "pushGatewayMessages sha1 S hs now [(m, r)] =
     (let hs' = pruneRecentHashes now hs; h = hashGatewayMessage sha1 S m in
      if hs' h \<noteq> None then (hs', [])
      else case r of Accepted t \<Rightarrow> (hs'(h \<mapsto> t), [(m, True)]) | Failed \<Rightarrow> (hs', [(m, False)]))"
  by (simp add: pushGatewayMessages_def Let_def split: reply.splits)



text \<open>
  Claim C10. A message whose mutation fails leaves the table of hashes as it was: the
  loop goes on with the same table. A hash is in the table after the loop only if it was
  there before or the store accepted a message with that hash. When a push of one message
  was tried and failed, the table is the pruned table, and a later push of the same
  message calls the mutation again.
\<close>

theorem failed_push_not_recorded:
  "fst (push_loop H hs ((m, Failed) # rest)) = fst (push_loop H hs rest) \<and>
   (fst (push_loop H hs ms) h = Some t \<longrightarrow>
      hs h = Some t \<or> (\<exists>m'. (m', Accepted t) \<in> set ms \<and> H m' = h)) \<and>
   (snd (pushGatewayMessages dg S hs now1 [(m, Failed)]) = [(m, False)] \<longrightarrow>
      fst (pushGatewayMessages dg S hs now1 [(m, Failed)]) = pruneRecentHashes now1 hs \<and>
      snd (pushGatewayMessages dg S (fst (pushGatewayMessages dg S hs now1 [(m, Failed)]))
             now2 [(m, Accepted t2)]) = [(m, True)])"
proof -
  have a: "fst (push_loop H hs ((m, Failed) # rest)) = fst (push_loop H hs rest)"
    by (simp only: push_loop_fst) simp
  have b: "fst (push_loop H hs ms) h = Some t \<longrightarrow>
      hs h = Some t \<or> (\<exists>m'. (m', Accepted t) \<in> set ms \<and> H m' = h)"
    using push_loop_recorded by blast
  have c: "fst (pushGatewayMessages dg S hs now1 [(m, Failed)]) = pruneRecentHashes now1 hs \<and>
      snd (pushGatewayMessages dg S (fst (pushGatewayMessages dg S hs now1 [(m, Failed)]))
             now2 [(m, Accepted t2)]) = [(m, True)]"
    if f: "snd (pushGatewayMessages dg S hs now1 [(m, Failed)]) = [(m, False)]"
  proof -
    have absent: "pruneRecentHashes now1 hs (hashGatewayMessage dg S m) = None"
      using f by (simp add: push_single Let_def split: if_splits)
    then have "pruneRecentHashes now2 (pruneRecentHashes now1 hs) (hashGatewayMessage dg S m) = None"
      by (auto simp: prune_None prune_Some)
    then show ?thesis using absent by (simp add: push_single Let_def)
  qed
  from a b c show ?thesis by blast
qed


theorem failed_push_not_recorded_witness:
  "snd (pushGatewayMessages plain_digest String_prim Map.empty 1000
          [(example_msg, Failed)])
     = [(example_msg, False)] \<and>
   fst (pushGatewayMessages plain_digest String_prim Map.empty 1000
          [(example_msg, Failed)])
     = pruneRecentHashes 1000 Map.empty \<and>
   snd (pushGatewayMessages plain_digest String_prim
          (fst (pushGatewayMessages plain_digest String_prim Map.empty 1000
             [(example_msg, Failed)]))
          2000
          [(example_msg, Accepted 2001)])
     = [(example_msg, True)]"
proof -
  let ?m = "example_msg"
  have failed: "snd (pushGatewayMessages plain_digest String_prim Map.empty 1000 [(?m, Failed)])
                 = [(?m, False)]"
    by (simp add: push_single pruneRecentHashes_def Let_def)
  note c = failed_push_not_recorded [where dg = plain_digest and S = String_prim and hs = Map.empty and m = "?m"
      and ?now1.0 = 1000 and ?now2.0 = 2000 and ?t2.0 = 2001, THEN conjunct2, THEN conjunct2,
      THEN mp, OF failed]
  from failed c show ?thesis by blast
qed

end
